theory Spec2Isabelle
  imports Main
begin

section \<open>Time\<close>

text \<open>
  Python's \<^verbatim>\<open>datetime\<close> and \<^verbatim>\<open>timedelta\<close> count whole microseconds. A
  \<^verbatim>\<open>datetime\<close> is modelled as the instant it denotes (microseconds on an integer time
  line), a \<^verbatim>\<open>timedelta\<close> as a signed number of microseconds. Comparison, addition and
  subtraction are those of \<open>int\<close>. The range limits of the Python types (years 1 to
  9999) are not modelled.
\<close>

type_synonym datetime = int
type_synonym timedelta = int

definition minutes :: "int \<Rightarrow> timedelta" where
  "minutes n = n * 60000000"

definition hours :: "int \<Rightarrow> timedelta" where
  "hours n = n * 3600000000"

text \<open>
  Modelled from the spec: \<^verbatim>\<open>bvp.utils.time_utils.as_bvp_time\<close> is not among the source
  files, and the spec does not describe it. By its name and its use it converts a datetime
  to the platform's time zone. The model assumes that the instant the datetime denotes,
  which is all that comparisons and differences of time-zone aware datetimes look at,
  stays the same.
\<close>

definition as_bvp_time :: "datetime \<Rightarrow> datetime" where
  "as_bvp_time t = t"

section \<open>Exceptions\<close>

text \<open>
  The f-string messages of \<^verbatim>\<open>NotEnoughDataException\<close> are kept as the values they are
  built from: which of the three checks failed, and the suggested new start or end.
\<close>

datatype not_enough_data =
    NoDataAtAll
  | QueryStartsBeforeFirst datetime
  | QueryEndsAfterLast datetime

datatype exn =
    NotEnoughDataException not_enough_data
  | InvalidHorizonException string timedelta
  | PyException string
  | AttributeError
  | MultipleResultsFound
  | IntegrityError
  | CollaboratorError string

section \<open>bvp/data/models/forecasting/utils.py\<close>

subsection \<open>get_query_window\<close>

text \<open>Python's \<^verbatim>\<open>max\<close> of a non-empty list, as the left-to-right scan it is.\<close>

fun py_max :: "timedelta \<Rightarrow> timedelta list \<Rightarrow> timedelta" where
  "py_max m [] = m"
| "py_max m (x # xs) = py_max (if m < x then x else m) xs"

definition get_query_window ::
  "datetime \<Rightarrow> datetime \<Rightarrow> timedelta list \<Rightarrow> datetime \<times> datetime" where
  "get_query_window training_start end_dt lags =
     (let query_start =
            (case lags of
               [] \<Rightarrow> training_start
             | l # ls \<Rightarrow> training_start - py_max l ls);
          query_end = end_dt
      in (query_start, query_end))"

subsection \<open>check_data_availability\<close>

text \<open>
  A row of a timed-value table joined with its asset table: the asset's name and the
  row's datetime are what \<^verbatim>\<open>check_data_availability\<close> reads.
\<close>

record value_row =
  row_asset_name :: string
  row_datetime :: datetime

text \<open>
  \<^verbatim>\<open>q.order_by(datetime.asc()).first()\<close> and \<^verbatim>\<open>q.order_by(datetime.desc()).first()\<close>:
  the first row of the sorted result, \<open>None\<close> when there is no row.
\<close>

definition first_asc :: "value_row list \<Rightarrow> value_row option" where
  "first_asc q = (case sort_key row_datetime q of [] \<Rightarrow> None | r # _ \<Rightarrow> Some r)"

definition first_desc :: "value_row list \<Rightarrow> value_row option" where
  "first_desc q = (case rev (sort_key row_datetime q) of [] \<Rightarrow> None | r # _ \<Rightarrow> Some r)"

text \<open>
  The query \<^verbatim>\<open>q\<close> of \<^verbatim>\<open>check_data_availability\<close>: the rows of the value table whose
  asset has the given asset's name.
\<close>

definition asset_values :: "string \<Rightarrow> value_row list \<Rightarrow> value_row list" where
  "asset_values asset_name table = filter (\<lambda>r. row_asset_name r = asset_name) table"

definition check_data_availability ::
  "string \<Rightarrow> value_row list \<Rightarrow> datetime \<Rightarrow> datetime \<Rightarrow> datetime \<times> datetime \<Rightarrow> timedelta
     \<Rightarrow> exn + unit" where
  "check_data_availability asset_name table forecast_start forecast_end query_window horizon =
     (let q = asset_values asset_name table in
      case first_asc q of
        None \<Rightarrow> Inl (NotEnoughDataException NoDataAtAll)
      | Some first_value \<Rightarrow>
         (case first_desc q of
            None \<Rightarrow> Inl AttributeError
          | Some last_value \<Rightarrow>
             (let first = as_bvp_time (row_datetime first_value);
                  last = as_bvp_time (row_datetime last_value)
              in if fst query_window < first then
                   Inl (NotEnoughDataException
                     (QueryStartsBeforeFirst (forecast_start + (first - fst query_window))))
                 else if snd query_window - horizon > last + minutes 15 then
                   Inl (NotEnoughDataException
                     (QueryEndsAfterLast (forecast_end + (last - (snd query_window - horizon)))))
                 else Inr ())))"

section \<open>bvp/data/queries/utils.py\<close>

text \<open>
  A query is modelled by the rows it yields on a fixed database, in their order; a
  \<^verbatim>\<open>query.filter(clause)\<close> keeps the rows on which the SQL clause evaluates to true.
  A row of a beliefs query carries the columns the filters read: \<^verbatim>\<open>cls.datetime\<close>,
  \<^verbatim>\<open>cls.horizon\<close>, \<^verbatim>\<open>cls.data_source_id\<close> and the joined asset's
  \<^verbatim>\<open>event_resolution\<close>. Further columns (the value, the data source) are the record's
  extension.
\<close>

record belief_row =
  b_datetime :: datetime
  b_horizon :: timedelta
  b_data_source_id :: int
  b_event_resolution :: timedelta

record data_source =
  ds_id :: int
  ds_type :: string
  ds_label :: string

subsection \<open>SQL expressions\<close>

text \<open>
  The filter clauses are SQL expressions built by the ORM's operators on columns, also
  where the left operand is a Python value (as in \<^verbatim>\<open>start - asset_class.event_resolution\<close>
  of \<^verbatim>\<open>create_beliefs_query\<close>). SQL values are \<open>int option\<close> with \<open>None\<close> for
  \<^verbatim>\<open>NULL\<close>; arithmetic and comparisons on \<^verbatim>\<open>NULL\<close> give \<^verbatim>\<open>NULL\<close>, and a filter keeps a
  row only where its clause is true.

  The columns read here are never \<^verbatim>\<open>NULL\<close>. The one optional operand is the \<^verbatim>\<open>end\<close> of
  \<^verbatim>\<open>add_horizon_filter\<close>. What the ORM does with a \<^verbatim>\<open>None\<close> operand is decided by the
  ORM library and the model classes, which are not among the source files; the model
  takes it to become \<^verbatim>\<open>NULL\<close>. That is an assumption of the model, not a fact read off the
  source, and no claim is settled by it: what is proved of a filter with \<open>rolling=False\<close>
  and a horizon bound is stated for a given \<^verbatim>\<open>end\<close>, or holds whatever that filter keeps.
\<close>

type_synonym sql_val = "int option"

definition sql_add :: "sql_val \<Rightarrow> sql_val \<Rightarrow> sql_val" where
  "sql_add a b = (case a of None \<Rightarrow> None | Some x \<Rightarrow> (case b of None \<Rightarrow> None | Some y \<Rightarrow> Some (x + y)))"

definition sql_sub :: "sql_val \<Rightarrow> sql_val \<Rightarrow> sql_val" where
  "sql_sub a b = (case a of None \<Rightarrow> None | Some x \<Rightarrow> (case b of None \<Rightarrow> None | Some y \<Rightarrow> Some (x - y)))"

definition sql_eq :: "sql_val \<Rightarrow> sql_val \<Rightarrow> bool option" where
  "sql_eq a b = (case a of None \<Rightarrow> None | Some x \<Rightarrow> (case b of None \<Rightarrow> None | Some y \<Rightarrow> Some (x = y)))"

definition sql_le :: "sql_val \<Rightarrow> sql_val \<Rightarrow> bool option" where
  "sql_le a b = (case a of None \<Rightarrow> None | Some x \<Rightarrow> (case b of None \<Rightarrow> None | Some y \<Rightarrow> Some (x \<le> y)))"

definition sql_ge :: "sql_val \<Rightarrow> sql_val \<Rightarrow> bool option" where
  "sql_ge a b = (case a of None \<Rightarrow> None | Some x \<Rightarrow> (case b of None \<Rightarrow> None | Some y \<Rightarrow> Some (x \<ge> y)))"

definition query_filter :: "('r \<Rightarrow> bool option) \<Rightarrow> 'r list \<Rightarrow> 'r list" where
  "query_filter clause query = filter (\<lambda>r. clause r = Some True) query"

subsection \<open>add_user_source_filter\<close>

text \<open>
  \<^verbatim>\<open>user_source_ids: Union[int, List[int]]\<close>, or \<^verbatim>\<open>None\<close>. The first \<^verbatim>\<open>if\<close> wraps a
  single id into a list.
\<close>

datatype source_ids = NoIds | OneId int | IdList "int list"

definition ensure_list :: "source_ids \<Rightarrow> int list option" where
  "ensure_list user_source_ids =
     (case user_source_ids of
        NoIds \<Rightarrow> None
      | OneId i \<Rightarrow> Some [i]
      | IdList ids \<Rightarrow> Some ids)"

definition add_user_source_filter ::
  "data_source list \<Rightarrow> ('a belief_row_scheme) list \<Rightarrow> source_ids \<Rightarrow> ('a belief_row_scheme) list" where
  "add_user_source_filter data_source_tbl query user_source_ids =
     (case ensure_list user_source_ids of
        None \<Rightarrow> query
      | Some [] \<Rightarrow> query
      | Some (i # ids) \<Rightarrow>
         (let ignorable_user_sources =
                filter (\<lambda>s. ds_id s \<notin> set (i # ids))
                  (filter (\<lambda>s. ds_type s = ''user'') data_source_tbl);
              ignorable_user_source_ids = map ds_id ignorable_user_sources
          in filter (\<lambda>r. b_data_source_id r \<notin> set ignorable_user_source_ids) query))"

subsection \<open>add_horizon_filter\<close>

text \<open>
  \<^verbatim>\<open>end - (cls.datetime + asset_class.event_resolution)\<close>: the difference between the end
  of the query window and the end of the row's event.
\<close>

definition end_minus_event_end :: "datetime option \<Rightarrow> 'a belief_row_scheme \<Rightarrow> sql_val" where
  "end_minus_event_end end_dt r =
     sql_sub end_dt (sql_add (Some (b_datetime r)) (Some (b_event_resolution r)))"

definition add_horizon_filter ::
  "('a belief_row_scheme) list \<Rightarrow> datetime option \<Rightarrow> timedelta option \<times> timedelta option
     \<Rightarrow> bool \<Rightarrow> datetime option \<Rightarrow> ('a belief_row_scheme) list" where
  "add_horizon_filter query0 end_dt horizon_window rolling belief_time =
     (let query1 =
            (case belief_time of
               None \<Rightarrow> query0
             | Some bt \<Rightarrow>
                 query_filter
                   (\<lambda>r. sql_le
                          (sql_sub (sql_add (Some (b_datetime r)) (Some (b_event_resolution r)))
                             (Some (b_horizon r)))
                          (Some bt))
                   query0);
          short_horizon = fst horizon_window;
          long_horizon = snd horizon_window
      in if short_horizon \<noteq> None \<and> long_horizon \<noteq> None \<and> short_horizon = long_horizon then
           (if rolling then
              query_filter (\<lambda>r. sql_eq (Some (b_horizon r)) short_horizon) query1
            else
              query_filter
                (\<lambda>r. sql_eq (Some (b_horizon r))
                       (sql_sub short_horizon (end_minus_event_end end_dt r)))
                query1)
         else
           (let query2 =
                  (if short_horizon \<noteq> None then
                     (if rolling then
                        query_filter (\<lambda>r. sql_ge (Some (b_horizon r)) short_horizon) query1
                      else
                        query_filter
                          (\<lambda>r. sql_ge (Some (b_horizon r))
                                 (sql_sub short_horizon (end_minus_event_end end_dt r)))
                          query1)
                   else query1)
            in if long_horizon \<noteq> None then
                 (if rolling then
                    query_filter (\<lambda>r. sql_le (Some (b_horizon r)) long_horizon) query2
                  else
                    query_filter
                      (\<lambda>r. sql_le (Some (b_horizon r))
                             (sql_sub long_horizon (end_minus_event_end end_dt r)))
                      query2)
               else query2))"

section \<open>bvp/data/services/forecasting.py\<close>

subsection \<open>Data\<close>

type_synonym params = "(string \<times> string) list"

text \<open>
  An asset, market or weather sensor as \<^verbatim>\<open>get_asset\<close> returns it. \<open>a_market_type\<close> is
  \<open>Some\<close> exactly when the object has a \<^verbatim>\<open>market_type\<close> attribute, which is what
  \<^verbatim>\<open>hasattr(asset, "market_type")\<close> asks.
\<close>

record generic_asset =
  a_id :: int
  a_name :: string
  a_market_type :: "string option"

datatype timed_value_class = Power | Price | Weather

text \<open>
  A \<^verbatim>\<open>Power\<close>, \<^verbatim>\<open>Price\<close> or \<^verbatim>\<open>Weather\<close> object; \<open>tv_asset_id\<close> is its
  \<^verbatim>\<open>asset_id\<close>, \<^verbatim>\<open>market_id\<close> or \<^verbatim>\<open>sensor_id\<close>. The forecast values are floats that
  the code only passes on, so their type is left open.
\<close>

record 'v timed_value =
  tv_class :: timed_value_class
  tv_datetime :: datetime
  tv_horizon :: timedelta
  tv_value :: 'v
  tv_asset_id :: int
  tv_data_source_id :: int

record model_specs =
  ms_identifier :: string
  ms_creation_time :: "datetime option"

text \<open>
  A job of the queue, as \<^verbatim>\<open>Job.create(make_forecasts, kwargs=...)\<close> makes it: the
  keyword arguments it will call \<^verbatim>\<open>make_forecasts\<close> with.
\<close>

record job =
  job_asset_id :: int
  job_timed_value_type :: string
  job_horizon :: timedelta
  job_start :: datetime
  job_end :: datetime
  job_custom_model_params :: "params option"

text \<open>
  What the job queue has seen: the jobs made by \<^verbatim>\<open>Job.create\<close> and the jobs put on
  \<^verbatim>\<open>current_app.redis_queue\<close>, each in the order of the calls.
\<close>

record queue_state =
  created_jobs :: "job list"
  redis_queue :: "job list"

subsection \<open>The effects of make_forecasts\<close>

text \<open>
  \<^verbatim>\<open>make_forecasts\<close> acts on the database session, the log and its collaborators. Its
  model returns the calls it made, in order, together with the exception it raised
  (\<open>None\<close> when it returns). \<open>Save tvs overwrite\<close> is a call of
  \<^verbatim>\<open>save_to_database(tvs, overwrite=...)\<close>, \<open>BuildModel\<close> the call of
  \<^verbatim>\<open>latest_generic_model\<close>, \<open>RollingForecasts\<close> that of \<^verbatim>\<open>make_rolling_forecasts\<close>.
  \<open>Print\<close> is the announcement of the job (line 60), which reads the job's id; the two
  progress messages printed in the \<^verbatim>\<open>except\<close> clause are not recorded. The messages of
  the exceptions are given without the values formatted into them.
\<close>

datatype 'v event =
    SessionAdd data_source
  | Print string
  | BuildModel
  | RollingForecasts
  | Save "'v timed_value list" bool
  | Flush
  | LogWarning exn
  | Rollback

text \<open>
  What \<^verbatim>\<open>make_forecasts\<close> finds around it. None of these is among the source files; each
  is a parameter: the current job's id (\<^verbatim>\<open>get_current_job()\<close>, \<open>None\<close> outside a
  worker), the label of the forecasting data source, the tables, the id the database
  gives a new data source, \<^verbatim>\<open>supported_horizons()\<close>, \<^verbatim>\<open>bvp_now()\<close>, the outcomes of
  \<^verbatim>\<open>latest_generic_model\<close>, \<^verbatim>\<open>make_rolling_forecasts\<close>, \<^verbatim>\<open>save_to_database\<close> and
  \<^verbatim>\<open>db.session.flush\<close> (an exception or a result), and \<^verbatim>\<open>current_app.config\<close>.
\<close>

record 'v world =
  current_job :: "string option"
  data_source_label :: string
  data_source_tbl :: "data_source list"
  next_data_source_id :: int
  asset_tbl :: "generic_asset list"
  market_tbl :: "generic_asset list"
  weather_sensor_tbl :: "generic_asset list"
  supported_horizons :: "timedelta list"
  bvp_now :: datetime
  latest_generic_model ::
    "generic_asset \<Rightarrow> datetime \<Rightarrow> datetime \<Rightarrow> timedelta \<Rightarrow> timedelta option \<Rightarrow> params option
       \<Rightarrow> exn + model_specs"
  make_rolling_forecasts :: "datetime \<Rightarrow> datetime \<Rightarrow> model_specs \<Rightarrow> exn + (datetime \<times> 'v) list"
  save_to_database :: "'v timed_value list \<Rightarrow> bool \<Rightarrow> exn option"
  session_flush :: "exn option"
  config :: "string \<Rightarrow> string option"

text \<open>\<^verbatim>\<open>Query.one_or_none()\<close>: no row, the one row, or an exception when there are more.\<close>

definition one_or_none :: "'a list \<Rightarrow> exn + 'a option" where
  "one_or_none rows =
     (case rows of
        [] \<Rightarrow> Inr None
      | [r] \<Rightarrow> Inr (Some r)
      | _ # _ # _ \<Rightarrow> Inl MultipleResultsFound)"

text \<open>\<^verbatim>\<open>config.get(key, default)\<close>.\<close>

definition config_get :: "'v world \<Rightarrow> string \<Rightarrow> string \<Rightarrow> string" where
  "config_get w key dflt = (case config w key of None \<Rightarrow> dflt | Some v \<Rightarrow> v)"

subsection \<open>get_data_source, get_asset, make_timed_value\<close>

text \<open>
  A data source that is not found is made and added to the session; the database numbers
  it when the session is flushed for the next query.
\<close>

definition get_data_source :: "'v world \<Rightarrow> (exn + data_source) \<times> 'v event list" where
  "get_data_source w =
     (case one_or_none (filter (\<lambda>s. ds_label s = data_source_label w) (data_source_tbl w)) of
        Inl e \<Rightarrow> (Inl e, [])
      | Inr (Some data_source) \<Rightarrow> (Inr data_source, [])
      | Inr None \<Rightarrow>
         (let data_source =
                \<lparr>ds_id = next_data_source_id w, ds_type = ''script'',
                 ds_label = data_source_label w\<rparr>
          in (Inr data_source, [SessionAdd data_source])))"

definition get_asset :: "'v world \<Rightarrow> int \<Rightarrow> string \<Rightarrow> exn + generic_asset" where
  "get_asset w asset_id timed_value_type =
     (if timed_value_type \<notin> set [''Power'', ''Price'', ''Weather''] then
        Inl (PyException ''Cannot get asset for asset_type'')
      else
        (case (if timed_value_type = ''Power'' then
                 one_or_none (filter (\<lambda>a. a_id a = asset_id) (asset_tbl w))
               else if timed_value_type = ''Price'' then
                 one_or_none (filter (\<lambda>a. a_id a = asset_id) (market_tbl w))
               else if timed_value_type = ''Weather'' then
                 one_or_none (filter (\<lambda>a. a_id a = asset_id) (weather_sensor_tbl w))
               else Inr None) of
           Inl e \<Rightarrow> Inl e
         | Inr None \<Rightarrow> Inl (PyException ''Cannot find asset for value type'')
         | Inr (Some asset) \<Rightarrow> Inr asset))"

definition make_timed_value ::
  "string \<Rightarrow> int \<Rightarrow> datetime \<Rightarrow> 'v \<Rightarrow> timedelta \<Rightarrow> int \<Rightarrow> exn + 'v timed_value" where
  "make_timed_value timed_value_type asset_id dt v horizon data_source_id =
     (if timed_value_type \<notin> set [''Power'', ''Price'', ''Weather''] then
        Inl (PyException ''Cannot get asset for asset_type'')
      else
        (case (if timed_value_type = ''Power'' then Some Power
               else if timed_value_type = ''Price'' then Some Price
               else if timed_value_type = ''Weather'' then Some Weather
               else None) of
           None \<Rightarrow> Inl (PyException ''Cannot create asset of type'')
         | Some c \<Rightarrow>
             Inr \<lparr>tv_class = c, tv_datetime = dt, tv_horizon = horizon, tv_value = v,
                  tv_asset_id = asset_id, tv_data_source_id = data_source_id\<rparr>))"

text \<open>
  The list comprehension over \<^verbatim>\<open>forecasts.items()\<close>: the timed values in order, or the
  first exception.
\<close>

fun make_timed_values ::
  "string \<Rightarrow> int \<Rightarrow> timedelta \<Rightarrow> int \<Rightarrow> (datetime \<times> 'v) list \<Rightarrow> exn + 'v timed_value list" where
  "make_timed_values timed_value_type asset_id horizon data_source_id [] = Inr []"
| "make_timed_values timed_value_type asset_id horizon data_source_id ((dt, v) # items) =
     (case make_timed_value timed_value_type asset_id dt v horizon data_source_id of
        Inl e \<Rightarrow> Inl e
      | Inr tv \<Rightarrow>
         (case make_timed_values timed_value_type asset_id horizon data_source_id items of
            Inl e \<Rightarrow> Inl e
          | Inr tvs \<Rightarrow> Inr (tv # tvs)))"

subsection \<open>make_forecasts\<close>

text \<open>The test \<^verbatim>\<open>current_app.config.get("BVP_MODE", "") == "play"\<close> of line 106.\<close>

definition play_mode :: "'v world \<Rightarrow> bool" where
  "play_mode w \<longleftrightarrow> config_get w ''BVP_MODE'' '''' = ''play''"

text \<open>
  The \<^verbatim>\<open>except IntegrityError\<close> clause (lines 100 to 108), entered with the calls made so
  far: any other exception passes through.
\<close>

definition except_IntegrityError ::
  "'v world \<Rightarrow> 'v timed_value list \<Rightarrow> 'v event list \<Rightarrow> exn \<Rightarrow> 'v event list \<times> exn option" where
  "except_IntegrityError w ts_value_forecasts calls e =
     (if e = IntegrityError then
        (let calls1 = calls @ [LogWarning e, Rollback]
         in if play_mode w then
              (calls1 @ [Save ts_value_forecasts True],
               save_to_database w ts_value_forecasts True)
            else (calls1, None))
      else (calls, Some e))"

text \<open>The \<^verbatim>\<open>try\<close> statement (lines 97 to 108).\<close>

definition try_save ::
  "'v world \<Rightarrow> 'v timed_value list \<Rightarrow> 'v event list \<times> exn option" where
  "try_save w ts_value_forecasts =
     (case save_to_database w ts_value_forecasts False of
        Some e \<Rightarrow> except_IntegrityError w ts_value_forecasts [Save ts_value_forecasts False] e
      | None \<Rightarrow>
         (case session_flush w of
            Some e \<Rightarrow>
              except_IntegrityError w ts_value_forecasts [Save ts_value_forecasts False, Flush] e
          | None \<Rightarrow> ([Save ts_value_forecasts False, Flush], None)))"

definition make_forecasts ::
  "'v world \<Rightarrow> int \<Rightarrow> string \<Rightarrow> timedelta \<Rightarrow> datetime \<Rightarrow> datetime \<Rightarrow> params option
     \<Rightarrow> 'v event list \<times> exn option" where
  "make_forecasts w asset_id timed_value_type horizon start end_dt custom_model_params =
     (case get_data_source w of
        (Inl e, calls0) \<Rightarrow> (calls0, Some e)
      | (Inr data_source, calls0) \<Rightarrow>
         (case get_asset w asset_id timed_value_type of
            Inl e \<Rightarrow> (calls0, Some e)
          | Inr asset \<Rightarrow>
             (case current_job w of
                None \<Rightarrow> (calls0, Some AttributeError)
              | Some rq_job_id \<Rightarrow>
                 (let calls1 = calls0 @ [Print rq_job_id]
                  in if horizon \<notin> set (supported_horizons w) then
                       (calls1, Some (InvalidHorizonException rq_job_id horizon))
                     else
                       (let ex_post_horizon =
                              (if a_market_type asset \<noteq> None then None else Some (hours 0));
                            calls2 = calls1 @ [BuildModel]
                        in case latest_generic_model w asset (as_bvp_time start)
                                  (as_bvp_time end_dt) horizon ex_post_horizon
                                  custom_model_params of
                             Inl e \<Rightarrow> (calls2, Some e)
                           | Inr specs \<Rightarrow>
                              (let model_specs = specs\<lparr>ms_creation_time := Some (bvp_now w)\<rparr>;
                                   calls3 = calls2 @ [RollingForecasts]
                               in case make_rolling_forecasts w (as_bvp_time start)
                                         (as_bvp_time end_dt) model_specs of
                                    Inl e \<Rightarrow> (calls3, Some e)
                                  | Inr forecasts \<Rightarrow>
                                     (case make_timed_values timed_value_type asset_id horizon
                                             (ds_id data_source) forecasts of
                                        Inl e \<Rightarrow> (calls3, Some e)
                                      | Inr ts_value_forecasts \<Rightarrow>
                                         (case try_save w ts_value_forecasts of
                                            (calls4, r) \<Rightarrow> (calls3 @ calls4, r)))))))))"

subsection \<open>create_forecasting_jobs\<close>

text \<open>
  The \<^verbatim>\<open>for\<close> loop over the horizons, with the list of jobs and the queue it updates.
\<close>

fun create_jobs_loop ::
  "string \<Rightarrow> int \<Rightarrow> datetime \<Rightarrow> datetime \<Rightarrow> params option \<Rightarrow> bool \<Rightarrow> timedelta list
     \<Rightarrow> job list \<Rightarrow> queue_state \<Rightarrow> job list \<times> queue_state" where
  "create_jobs_loop timed_value_type asset_id start_of_roll end_of_roll custom_model_params
     enqueue [] jobs st = (jobs, st)"
| "create_jobs_loop timed_value_type asset_id start_of_roll end_of_roll custom_model_params
     enqueue (horizon # horizons) jobs st =
     (let new_job =
            \<lparr>job_asset_id = asset_id, job_timed_value_type = timed_value_type,
             job_horizon = horizon, job_start = start_of_roll + horizon,
             job_end = end_of_roll + horizon,
             job_custom_model_params = custom_model_params\<rparr>;
          st1 = st\<lparr>created_jobs := created_jobs st @ [new_job]\<rparr>;
          jobs1 = jobs @ [new_job];
          st2 = (if enqueue then st1\<lparr>redis_queue := redis_queue st1 @ [new_job]\<rparr> else st1)
      in create_jobs_loop timed_value_type asset_id start_of_roll end_of_roll
           custom_model_params enqueue horizons jobs1 st2)"

text \<open>
  \<^verbatim>\<open>forecast_horizons_for\<close> (of \<^verbatim>\<open>bvp.utils.time_utils\<close>, not among the source files) is
  a parameter.
\<close>

definition create_forecasting_jobs ::
  "(timedelta \<Rightarrow> timedelta list) \<Rightarrow> string \<Rightarrow> int \<Rightarrow> datetime \<Rightarrow> datetime \<Rightarrow> timedelta option
     \<Rightarrow> timedelta list option \<Rightarrow> params option \<Rightarrow> bool \<Rightarrow> queue_state
     \<Rightarrow> (exn + job list) \<times> queue_state" where
  "create_forecasting_jobs forecast_horizons_for timed_value_type asset_id start_of_roll
     end_of_roll resolution horizons custom_model_params enqueue st =
     (case (case horizons of
              Some hs \<Rightarrow> Inr hs
            | None \<Rightarrow>
               (case resolution of
                  None \<Rightarrow>
                    Inl (PyException
                      ''Cannot create forecasting jobs - set either horizons or resolution.'')
                | Some res \<Rightarrow> Inr (forecast_horizons_for res))) of
        Inl e \<Rightarrow> (Inl e, st)
      | Inr hs \<Rightarrow>
         (case create_jobs_loop timed_value_type asset_id start_of_roll end_of_roll
                 custom_model_params enqueue hs [] st of
            (jobs, st1) \<Rightarrow> (Inr jobs, st1)))"

subsection \<open>An example world\<close>

text \<open>
  A world to run \<^verbatim>\<open>make_forecasts\<close> in: a worker's job, the forecasting data source, one
  asset with id 7, the horizons 6h and 48h supported, collaborators that return a model
  and one forecast, a database in which a first save violates uniqueness and a save with
  \<open>overwrite=True\<close> succeeds, and the configuration \<open>BVP_MODE = play\<close>.
\<close>

definition example_world :: "int world" where
  "example_world =
     \<lparr>current_job = Some ''job-1'',
      data_source_label = ''forecast by Seita'',
      data_source_tbl = [\<lparr>ds_id = 1, ds_type = ''script'', ds_label = ''forecast by Seita''\<rparr>],
      next_data_source_id = 2,
      asset_tbl = [\<lparr>a_id = 7, a_name = ''wind'', a_market_type = None\<rparr>],
      market_tbl = [],
      weather_sensor_tbl = [],
      supported_horizons = [hours 6, hours 48],
      bvp_now = 0,
      latest_generic_model =
        (\<lambda>asset start end_dt horizon ex_post_horizon custom_model_params.
           Inr \<lparr>ms_identifier = ''model'', ms_creation_time = None\<rparr>),
      make_rolling_forecasts = (\<lambda>start end_dt specs. Inr [(start, 5)]),
      save_to_database = (\<lambda>tvs overwrite. if overwrite then None else Some IntegrityError),
      session_flush = None,
      config = (\<lambda>key. if key = ''BVP_MODE'' then Some ''play'' else None)\<rparr>"

section \<open>Properties of the forecasting utilities\<close>

lemma py_max_Max: "py_max m xs = Max (set (m # xs))"
proof (induction xs arbitrary: m)
  case Nil
  show ?case by simp
next
  case (Cons x xs)
  have "Max (insert m (insert x (set xs))) = Max (insert (max m x) (set xs))"
    by (cases "set xs = {}") (simp_all add: max.assoc)
  then show ?case
    using Cons.IH [of "if m < x then x else m"] by (simp add: max_def not_less)
qed

lemma first_asc_None: "first_asc q = None \<longleftrightarrow> q = []"
proof -
  have "sort_key row_datetime q = [] \<longleftrightarrow> q = []"
    by (metis length_sort length_0_conv)
  then show ?thesis
    by (cases "sort_key row_datetime q") (auto simp: first_asc_def)
qed

lemma first_desc_None: "first_desc q = None \<longleftrightarrow> q = []"
proof -
  have "sort_key row_datetime q = [] \<longleftrightarrow> q = []"
    by (metis length_sort length_0_conv)
  then show ?thesis
    by (cases "rev (sort_key row_datetime q)") (auto simp: first_desc_def)
qed

lemma first_asc_Min:
  assumes "first_asc q = Some r"
  shows "row_datetime r = Min (row_datetime ` set q)"
proof -
  obtain rs where s: "sort_key row_datetime q = r # rs"
    using assms by (auto simp: first_asc_def split: list.splits)
  have "sorted (map row_datetime (r # rs))"
    using sorted_sort_key [of row_datetime q] s by simp
  then have le: "\<forall>x \<in> set (r # rs). row_datetime r \<le> row_datetime x"
    by auto
  have st: "set (r # rs) = set q"
    using set_sort [of row_datetime q] s by simp
  show ?thesis
  proof (rule Min_eqI [symmetric])
    show "finite (row_datetime ` set q)" by simp
    show "row_datetime r \<in> row_datetime ` set q"
      using st by auto
    fix y assume "y \<in> row_datetime ` set q"
    then show "row_datetime r \<le> y"
      using le st by auto
  qed
qed

lemma first_desc_Max:
  assumes "first_desc q = Some r"
  shows "row_datetime r = Max (row_datetime ` set q)"
proof -
  obtain rs where s: "rev (sort_key row_datetime q) = r # rs"
    using assms by (auto simp: first_desc_def split: list.splits)
  then have s': "sort_key row_datetime q = rev rs @ [r]"
    by (metis rev_rev_ident rev.simps(2))
  have "sorted (map row_datetime (rev rs @ [r]))"
    using sorted_sort_key [of row_datetime q] s' by simp
  then have le: "\<forall>x \<in> set (r # rs). row_datetime x \<le> row_datetime r"
    by (auto simp: sorted_append)
  have st: "set (r # rs) = set q"
    using set_sort [of row_datetime q] s' by auto
  show ?thesis
  proof (rule Max_eqI [symmetric])
    show "finite (row_datetime ` set q)" by simp
    show "row_datetime r \<in> row_datetime ` set q"
      using st by auto
    fix y assume "y \<in> row_datetime ` set q"
    then show "y \<le> row_datetime r"
      using le st by auto
  qed
qed


section \<open>get_query_window\<close>

text \<open>
  Claim C8. \<^verbatim>\<open>get_query_window\<close> returns \<open>(training_start - max(lags), end)\<close> when the
  list of lags is not empty and \<open>(training_start, end)\<close> when it is empty. So the query
  start is at or before \<open>training_start - lag\<close> for every lag of the list, and the query
  end is the given end.
\<close>

theorem get_query_window_spec:
  "get_query_window training_start end_dt lags =
     (if lags = [] then (training_start, end_dt)
      else (training_start - Max (set lags), end_dt))
   \<and> (\<forall>lag \<in> set lags. fst (get_query_window training_start end_dt lags) \<le> training_start - lag)
   \<and> snd (get_query_window training_start end_dt lags) = end_dt"
proof (cases lags)
  case Nil
  then show ?thesis by (simp add: get_query_window_def)
next
  case (Cons l ls)
  have m: "py_max l ls = Max (set lags)"
    using Cons by (simp add: py_max_Max)
  have "\<forall>lag \<in> set lags. lag \<le> Max (set lags)"
    by simp
  then show ?thesis
    using Cons m by (auto simp: get_query_window_def)
qed

text \<open>The theorem at the lags 10, 30 and 20: the query starts 30 before the training.\<close>

theorem get_query_window_witness:
  "get_query_window 100 200 [10, 30, 20] = (70, 200)
   \<and> fst (get_query_window 100 200 [10, 30, 20]) \<le> 100 - 10
   \<and> fst (get_query_window 100 200 [10, 30, 20]) \<le> 100 - 30
   \<and> fst (get_query_window 100 200 [10, 30, 20]) \<le> 100 - 20
   \<and> snd (get_query_window 100 200 [10, 30, 20]) = 200"
  using get_query_window_spec [of 100 200 "[10, 30, 20]"] by simp

section \<open>check_data_availability\<close>

text \<open>
  The three checks, read on the query \<^verbatim>\<open>q\<close> of the function: its result is decided by
  whether \<^verbatim>\<open>q\<close> has rows, and by their least and greatest datetime.
\<close>

lemma check_data_availability_asset_values:
  "((\<exists>d. check_data_availability asset_name table forecast_start forecast_end query_window horizon
            = Inl (NotEnoughDataException d))
      \<longleftrightarrow> (asset_values asset_name table = []
           \<or> fst query_window < Min (row_datetime ` set (asset_values asset_name table))
           \<or> snd query_window - horizon
                > Max (row_datetime ` set (asset_values asset_name table)) + minutes 15))
   \<and> (check_data_availability asset_name table forecast_start forecast_end query_window horizon
         = Inr ()
      \<longleftrightarrow> (asset_values asset_name table \<noteq> []
           \<and> Min (row_datetime ` set (asset_values asset_name table)) \<le> fst query_window
           \<and> snd query_window - horizon
                \<le> Max (row_datetime ` set (asset_values asset_name table)) + minutes 15))"
proof (cases "asset_values asset_name table = []")
  case True
  then have "first_asc (asset_values asset_name table) = None"
    by (simp add: first_asc_None)
  then show ?thesis
    using True by (simp add: check_data_availability_def)
next
  case False
  then obtain f where f: "first_asc (asset_values asset_name table) = Some f"
    using first_asc_None [of "asset_values asset_name table"]
    by (cases "first_asc (asset_values asset_name table)") auto
  from False obtain l where l: "first_desc (asset_values asset_name table) = Some l"
    using first_desc_None [of "asset_values asset_name table"]
    by (cases "first_desc (asset_values asset_name table)") auto
  define mn where "mn = Min (row_datetime ` set (asset_values asset_name table))"
  define mx where "mx = Max (row_datetime ` set (asset_values asset_name table))"
  have fm: "row_datetime f = mn"
    unfolding mn_def using f by (rule first_asc_Min)
  have lm: "row_datetime l = mx"
    unfolding mx_def using l by (rule first_desc_Max)
  have r: "check_data_availability asset_name table forecast_start forecast_end query_window horizon
      = (if fst query_window < mn then
           Inl (NotEnoughDataException
             (QueryStartsBeforeFirst (forecast_start + (mn - fst query_window))))
         else if snd query_window - horizon > mx + minutes 15 then
           Inl (NotEnoughDataException
             (QueryEndsAfterLast (forecast_end + (mx - (snd query_window - horizon)))))
         else Inr ())"
    by (simp add: check_data_availability_def f l fm lm as_bvp_time_def Let_def)
  show ?thesis
    unfolding r mn_def [symmetric] mx_def [symmetric] using False by auto
qed

text \<open>
  Claim C3. \<^verbatim>\<open>check_data_availability\<close> raises \<^verbatim>\<open>NotEnoughDataException\<close> exactly when
  the asset has no data at all, or its first value's datetime is later than
  \<open>query_window[0]\<close>, or \<open>query_window[1] - horizon\<close> is later than its last value's
  datetime plus 15 minutes; when none of the three holds it returns without raising.
  The data of the asset are the rows of the value table whose asset has the given asset's
  name; the first and the last value are the rows of least and of greatest datetime
  among them.
\<close>

theorem check_data_availability_spec:
  "((\<exists>d. check_data_availability asset_name table forecast_start forecast_end query_window horizon
            = Inl (NotEnoughDataException d))
      \<longleftrightarrow> (filter (\<lambda>r. row_asset_name r = asset_name) table = []
           \<or> fst query_window
                < Min (row_datetime ` set (filter (\<lambda>r. row_asset_name r = asset_name) table))
           \<or> snd query_window - horizon
                > Max (row_datetime ` set (filter (\<lambda>r. row_asset_name r = asset_name) table))
                  + minutes 15))
   \<and> (check_data_availability asset_name table forecast_start forecast_end query_window horizon
         = Inr ()
      \<longleftrightarrow> (filter (\<lambda>r. row_asset_name r = asset_name) table \<noteq> []
           \<and> Min (row_datetime ` set (filter (\<lambda>r. row_asset_name r = asset_name) table))
                \<le> fst query_window
           \<and> snd query_window - horizon
                \<le> Max (row_datetime ` set (filter (\<lambda>r. row_asset_name r = asset_name) table))
                  + minutes 15))"
  using check_data_availability_asset_values
    [of asset_name table forecast_start forecast_end query_window horizon]
  unfolding asset_values_def .

text \<open>
  On a table that holds a single row, of the asset \<open>sun\<close>, the check raises for the asset
  \<open>wind\<close>, which has no data, and passes for \<open>sun\<close> with a query window that its row
  covers.
\<close>

lemma check_data_availability_example:
  "check_data_availability ''wind'' [\<lparr>row_asset_name = ''sun'', row_datetime = 100\<rparr>]
     200 300 (100, 100) 0
     = Inl (NotEnoughDataException NoDataAtAll)
   \<and> check_data_availability ''sun'' [\<lparr>row_asset_name = ''sun'', row_datetime = 100\<rparr>]
       200 300 (100, 100) 0
     = Inr ()"
  by (simp add: check_data_availability_def asset_values_def first_asc_def first_desc_def
      as_bvp_time_def minutes_def)


section \<open>create_forecasting_jobs\<close>

text \<open>
  The loop appends one job per horizon, in order, to the jobs made so far, to the jobs
  created and, when \<open>enqueue\<close> is set, to the queue.
\<close>

lemma create_jobs_loop_map:
  "create_jobs_loop timed_value_type asset_id start_of_roll end_of_roll custom_model_params
     enqueue horizons jobs st =
   (let new_jobs =
          map (\<lambda>horizon.
                 \<lparr>job_asset_id = asset_id, job_timed_value_type = timed_value_type,
                  job_horizon = horizon, job_start = start_of_roll + horizon,
                  job_end = end_of_roll + horizon,
                  job_custom_model_params = custom_model_params\<rparr>) horizons
    in (jobs @ new_jobs,
        st\<lparr>created_jobs := created_jobs st @ new_jobs,
           redis_queue := redis_queue st @ (if enqueue then new_jobs else [])\<rparr>))"
proof (induction horizons arbitrary: jobs st)
  case Nil
  show ?case by simp
next
  case (Cons horizon horizons)
  show ?case
    by (simp add: Cons.IH Let_def)
qed

text \<open>
  Claim C4. Given a list of horizons, \<^verbatim>\<open>create_forecasting_jobs\<close> creates exactly one job
  per horizon, in the order of the list, and the forecast period of each job is the
  rolling window shifted by its horizon: it starts at \<open>start_of_roll + horizon\<close> and ends
  at \<open>end_of_roll + horizon\<close>. This holds for every list, the non-empty ones of the claim
  among them.
\<close>

theorem create_forecasting_jobs_one_job_per_horizon:
  "create_forecasting_jobs forecast_horizons_for timed_value_type asset_id start_of_roll
     end_of_roll resolution (Some horizons) custom_model_params enqueue st =
   (let jobs =
          map (\<lambda>horizon.
                 \<lparr>job_asset_id = asset_id, job_timed_value_type = timed_value_type,
                  job_horizon = horizon, job_start = start_of_roll + horizon,
                  job_end = end_of_roll + horizon,
                  job_custom_model_params = custom_model_params\<rparr>) horizons
    in (Inr jobs,
        st\<lparr>created_jobs := created_jobs st @ jobs,
           redis_queue := redis_queue st @ (if enqueue then jobs else [])\<rparr>))"
  by (simp add: create_forecasting_jobs_def create_jobs_loop_map Let_def)

text \<open>
  Claim C10. With neither horizons nor resolution given, \<^verbatim>\<open>create_forecasting_jobs\<close>
  raises an exception; no job is created and none is put on the queue.
\<close>

theorem create_forecasting_jobs_neither_given:
  "create_forecasting_jobs forecast_horizons_for timed_value_type asset_id start_of_roll
     end_of_roll None None custom_model_params enqueue st =
   (Inl (PyException ''Cannot create forecasting jobs - set either horizons or resolution.''),
    st)"
  by (simp add: create_forecasting_jobs_def)


section \<open>add_horizon_filter\<close>

lemma sql_simps:
  "sql_add (Some a) (Some b) = Some (a + b)"
  "sql_sub (Some a) (Some b) = Some (a - b)"
  "sql_sub None x = None"
  "sql_sub x None = None"
  "sql_eq (Some a) (Some b) = Some (a = b)"
  "sql_le (Some a) (Some b) = Some (a \<le> b)"
  "sql_ge (Some a) (Some b) = Some (a \<ge> b)"
  "sql_eq x None = None"
  "sql_le x None = None"
  "sql_ge x None = None"
  by (simp_all add: sql_add_def sql_sub_def sql_eq_def sql_le_def sql_ge_def split: option.splits)

lemma end_minus_event_end_simps:
  "end_minus_event_end (Some e) r = Some (e - (b_datetime r + b_event_resolution r))"
  "end_minus_event_end None r = None"
  by (simp_all add: end_minus_event_end_def sql_simps)

text \<open>
  Claim C5, as stated: with a belief time given, \<^verbatim>\<open>add_horizon_filter\<close> keeps exactly the
  rows whose belief time, the event's end (\<open>datetime + event_resolution\<close>) minus the
  row's horizon, is at or before the given belief time. The horizon window is applied as
  well: below, a row believed at 12, before the belief time 100, is dropped because its
  horizon 3 is not the horizon 5 asked for.
\<close>

theorem add_horizon_filter_belief_time_counterexample:
  "b_datetime \<lparr>b_datetime = 0, b_horizon = 3, b_data_source_id = 1, b_event_resolution = 15\<rparr>
     + b_event_resolution \<lparr>b_datetime = 0, b_horizon = 3, b_data_source_id = 1, b_event_resolution = 15\<rparr>
     - b_horizon \<lparr>b_datetime = 0, b_horizon = 3, b_data_source_id = 1, b_event_resolution = 15\<rparr>
     \<le> (100 :: int)
   \<and> add_horizon_filter
       [\<lparr>b_datetime = 0, b_horizon = 3, b_data_source_id = 1, b_event_resolution = 15\<rparr>]
       (Some 100) (Some 5, Some 5) True (Some 100) = []"
  by (simp add: add_horizon_filter_def query_filter_def sql_simps)

text \<open>
  Claim C5, amended. With a belief time given, \<^verbatim>\<open>add_horizon_filter\<close> keeps exactly the
  rows whose belief time is at or before it among the rows that the horizon window keeps
  (the result without a belief time); with the horizon window \<open>(None, None)\<close> these are
  all rows of the query. The belief time of a row is the end of its event minus its
  horizon, as in the glossary.
\<close>

theorem add_horizon_filter_belief_time:
  "add_horizon_filter query end_dt horizon_window rolling (Some belief_time) =
     filter (\<lambda>r. b_datetime r + b_event_resolution r - b_horizon r \<le> belief_time)
       (add_horizon_filter query end_dt horizon_window rolling None)
   \<and> add_horizon_filter query end_dt (None, None) rolling (Some belief_time) =
       filter (\<lambda>r. b_datetime r + b_event_resolution r - b_horizon r \<le> belief_time) query"
proof -
  have b: "query_filter
             (\<lambda>r. sql_le
                    (sql_sub (sql_add (Some (b_datetime r)) (Some (b_event_resolution r)))
                       (Some (b_horizon r)))
                    (Some belief_time)) query
           = filter (\<lambda>r. b_datetime r + b_event_resolution r - b_horizon r \<le> belief_time) query"
    by (simp add: sql_simps query_filter_def)
  have 1: "add_horizon_filter query end_dt (short_horizon, long_horizon) rolling (Some belief_time) =
     filter (\<lambda>r. b_datetime r + b_event_resolution r - b_horizon r \<le> belief_time)
       (add_horizon_filter query end_dt (short_horizon, long_horizon) rolling None)"
    for short_horizon long_horizon
    by (cases short_horizon; cases long_horizon; cases rolling; cases end_dt)
       (auto simp: add_horizon_filter_def Let_def sql_simps end_minus_event_end_simps
          query_filter_def intro!: filter_cong)
  have 2: "add_horizon_filter query end_dt (None, None) rolling None = query"
    by (simp add: add_horizon_filter_def)
  show ?thesis
    using 1 [of "fst horizon_window" "snd horizon_window"] 1 [of None None] 2 by simp
qed

text \<open>
  Claim C6, as stated: with both horizons given and equal, \<open>rolling=True\<close> keeps exactly
  the rows whose horizon is \<open>short_horizon\<close>. The belief-time filter is applied as well:
  below, a row of horizon 5 is dropped because it is believed at 10, after the belief
  time 0.
\<close>

theorem add_horizon_filter_equal_horizons_counterexample:
  "b_horizon \<lparr>b_datetime = 0, b_horizon = 5, b_data_source_id = 1, b_event_resolution = 15\<rparr> = 5
   \<and> add_horizon_filter
       [\<lparr>b_datetime = 0, b_horizon = 5, b_data_source_id = 1, b_event_resolution = 15\<rparr>]
       (Some 100) (Some 5, Some 5) True (Some 0) = []"
  by (simp add: add_horizon_filter_def query_filter_def sql_simps)

text \<open>
  Claim C6, amended. With both horizons given and equal to \<open>h\<close>, and among the rows that
  pass the belief-time filter (all rows when no belief time is given),
  \<open>rolling=True\<close> keeps exactly the rows whose horizon is \<open>h\<close>, and \<open>rolling=False\<close>
  with the end \<open>e\<close> of the query window given keeps exactly the rows whose horizon is
  \<open>h - (e - (datetime + event_resolution))\<close>.
\<close>

theorem add_horizon_filter_equal_horizons:
  "add_horizon_filter query end_dt (Some h, Some h) True belief_time =
     filter (\<lambda>r. b_horizon r = h
               \<and> (case belief_time of
                     None \<Rightarrow> True
                   | Some bt \<Rightarrow> b_datetime r + b_event_resolution r - b_horizon r \<le> bt))
       query
   \<and> add_horizon_filter query (Some e) (Some h, Some h) False belief_time =
     filter (\<lambda>r. b_horizon r = h - (e - (b_datetime r + b_event_resolution r))
               \<and> (case belief_time of
                     None \<Rightarrow> True
                   | Some bt \<Rightarrow> b_datetime r + b_event_resolution r - b_horizon r \<le> bt))
       query"
  by (cases belief_time)
     (auto simp: add_horizon_filter_def Let_def sql_simps end_minus_event_end_simps
        query_filter_def intro!: filter_cong)


section \<open>add_user_source_filter\<close>

text \<open>
  The ids of the data sources are a primary key, so no two rows of the table share one.
  Then the id of a source is among the ignorable ones exactly when the source is a user
  source outside the given list.
\<close>

lemma ignorable_iff:
  assumes "distinct (map ds_id tbl)" "s \<in> set tbl" "ds_id s = i"
  shows "i \<in> set (map ds_id
              (filter (\<lambda>x. ds_id x \<notin> set ids) (filter (\<lambda>x. ds_type x = ''user'') tbl)))
         \<longleftrightarrow> ds_type s = ''user'' \<and> i \<notin> set ids"
proof -
  have inj: "inj_on ds_id (set tbl)"
    using assms(1) by (simp add: distinct_map)
  have eq: "x = s" if "x \<in> set tbl" "ds_id x = i" for x
    using inj that assms(2,3) by (simp add: inj_on_def)
  have m: "i \<in> set (map ds_id
              (filter (\<lambda>x. ds_id x \<notin> set ids) (filter (\<lambda>x. ds_type x = u) tbl)))
         \<longleftrightarrow> (\<exists>x \<in> set tbl. ds_type x = u \<and> ds_id x \<notin> set ids \<and> ds_id x = i)" for u
    by (simp add: image_iff) blast
  show ?thesis
    unfolding m using eq assms(2,3) by blast
qed

text \<open>
  Claim C7. Given a non-empty list of user source ids (or a single id),
  \<^verbatim>\<open>add_user_source_filter\<close> keeps every row whose data source has a type other than
  \<open>user\<close>, and of the rows whose data source is a user source exactly those whose
  \<^verbatim>\<open>data_source_id\<close> is in the list: a row of the query with data source \<open>s\<close> is kept
  exactly when \<open>s\<close> is no user source or its id is listed. With \<^verbatim>\<open>None\<close> or an empty
  list the query is returned unchanged.
\<close>

theorem add_user_source_filter_spec:
  assumes "distinct (map ds_id sources)"
    and "s \<in> set sources"
    and "ds_id s = b_data_source_id r"
    and "r \<in> set query"
  shows "(ids \<noteq> [] \<longrightarrow>
            (r \<in> set (add_user_source_filter sources query (IdList ids))
             \<longleftrightarrow> ds_type s \<noteq> ''user'' \<or> b_data_source_id r \<in> set ids))
         \<and> (r \<in> set (add_user_source_filter sources query (OneId i))
             \<longleftrightarrow> ds_type s \<noteq> ''user'' \<or> b_data_source_id r = i)
         \<and> add_user_source_filter sources query NoIds = query
         \<and> add_user_source_filter sources query (IdList []) = query"
proof -
  have k: "r \<in> set (filter (\<lambda>r. b_data_source_id r \<notin> set (map ds_id
              (filter (\<lambda>s. ds_id s \<notin> set l) (filter (\<lambda>s. ds_type s = ''user'') sources))))
              query)
           \<longleftrightarrow> ds_type s \<noteq> ''user'' \<or> b_data_source_id r \<in> set l" for l
    unfolding set_filter mem_Collect_eq ignorable_iff [OF assms(1,2,3), of l]
    using assms(4) by blast
  have a: "ids \<noteq> [] \<longrightarrow>
            (r \<in> set (add_user_source_filter sources query (IdList ids))
             \<longleftrightarrow> ds_type s \<noteq> ''user'' \<or> b_data_source_id r \<in> set ids)"
  proof (cases ids)
    case Nil
    then show ?thesis by simp
  next
    case (Cons j js)
    have "add_user_source_filter sources query (IdList ids)
          = filter (\<lambda>r. b_data_source_id r \<notin> set (map ds_id
              (filter (\<lambda>s. ds_id s \<notin> set ids) (filter (\<lambda>s. ds_type s = ''user'') sources))))
              query"
      unfolding Cons by (simp only: add_user_source_filter_def ensure_list_def
          source_ids.case option.case list.case Let_def)
    then show ?thesis
      using k [of ids] by simp
  qed
  have "add_user_source_filter sources query (OneId i)
          = filter (\<lambda>r. b_data_source_id r \<notin> set (map ds_id
              (filter (\<lambda>s. ds_id s \<notin> set [i]) (filter (\<lambda>s. ds_type s = ''user'') sources))))
              query"
    by (simp only: add_user_source_filter_def ensure_list_def
          source_ids.case option.case list.case Let_def)
  then have b: "r \<in> set (add_user_source_filter sources query (OneId i))
             \<longleftrightarrow> ds_type s \<noteq> ''user'' \<or> b_data_source_id r = i"
    using k [of "[i]"] by simp
  have c: "add_user_source_filter sources query NoIds = query"
    by (simp add: add_user_source_filter_def ensure_list_def)
  have d: "add_user_source_filter sources query (IdList []) = query"
    by (simp add: add_user_source_filter_def ensure_list_def)
  from a b c d show ?thesis by simp
qed

text \<open>
  The theorem on two user sources and a script source, asking for the user source 1: the
  rows of sources 1 and 3 are kept, the row of user source 2 is dropped.
\<close>

theorem add_user_source_filter_witness:
  "distinct (map ds_id
      [\<lparr>ds_id = 1, ds_type = ''user'', ds_label = ''a''\<rparr>,
       \<lparr>ds_id = 2, ds_type = ''user'', ds_label = ''b''\<rparr>,
       \<lparr>ds_id = 3, ds_type = ''script'', ds_label = ''c''\<rparr>])
   \<and> add_user_source_filter
       [\<lparr>ds_id = 1, ds_type = ''user'', ds_label = ''a''\<rparr>,
        \<lparr>ds_id = 2, ds_type = ''user'', ds_label = ''b''\<rparr>,
        \<lparr>ds_id = 3, ds_type = ''script'', ds_label = ''c''\<rparr>]
       [\<lparr>b_datetime = 0, b_horizon = 5, b_data_source_id = 1, b_event_resolution = 15\<rparr>,
        \<lparr>b_datetime = 0, b_horizon = 5, b_data_source_id = 2, b_event_resolution = 15\<rparr>,
        \<lparr>b_datetime = 0, b_horizon = 5, b_data_source_id = 3, b_event_resolution = 15\<rparr>]
       (IdList [1])
     = [\<lparr>b_datetime = 0, b_horizon = 5, b_data_source_id = 1, b_event_resolution = 15\<rparr>,
        \<lparr>b_datetime = 0, b_horizon = 5, b_data_source_id = 3, b_event_resolution = 15\<rparr>]
   \<and> \<lparr>b_datetime = 0, b_horizon = 5, b_data_source_id = 3, b_event_resolution = 15\<rparr>
       \<in> set (add_user_source_filter
          [\<lparr>ds_id = 1, ds_type = ''user'', ds_label = ''a''\<rparr>,
           \<lparr>ds_id = 2, ds_type = ''user'', ds_label = ''b''\<rparr>,
           \<lparr>ds_id = 3, ds_type = ''script'', ds_label = ''c''\<rparr>]
          [\<lparr>b_datetime = 0, b_horizon = 5, b_data_source_id = 1, b_event_resolution = 15\<rparr>,
           \<lparr>b_datetime = 0, b_horizon = 5, b_data_source_id = 2, b_event_resolution = 15\<rparr>,
           \<lparr>b_datetime = 0, b_horizon = 5, b_data_source_id = 3, b_event_resolution = 15\<rparr>]
          (IdList [1]))"
  using add_user_source_filter_spec
    [of "[\<lparr>ds_id = 1, ds_type = ''user'', ds_label = ''a''\<rparr>,
          \<lparr>ds_id = 2, ds_type = ''user'', ds_label = ''b''\<rparr>,
          \<lparr>ds_id = 3, ds_type = ''script'', ds_label = ''c''\<rparr>]"
        "\<lparr>ds_id = 3, ds_type = ''script'', ds_label = ''c''\<rparr>"
        "\<lparr>b_datetime = 0, b_horizon = 5, b_data_source_id = 3, b_event_resolution = 15\<rparr>"
        "[\<lparr>b_datetime = 0, b_horizon = 5, b_data_source_id = 1, b_event_resolution = 15\<rparr>,
          \<lparr>b_datetime = 0, b_horizon = 5, b_data_source_id = 2, b_event_resolution = 15\<rparr>,
          \<lparr>b_datetime = 0, b_horizon = 5, b_data_source_id = 3, b_event_resolution = 15\<rparr>]"
        "[1]" 1]
  by (simp add: add_user_source_filter_def ensure_list_def)


section \<open>make_forecasts\<close>

text \<open>The data source lookup adds at most one data source to the session and calls nothing else.\<close>

lemma get_data_source_calls:
  "get_data_source w = (r, calls) \<Longrightarrow> calls = [] \<or> (\<exists>s. calls = [SessionAdd s])"
  by (auto simp: get_data_source_def Let_def split: sum.splits option.splits)

text \<open>What the \<^verbatim>\<open>except\<close> clause does with an \<^verbatim>\<open>IntegrityError\<close>.\<close>

lemma except_IntegrityError_raised:
  "except_IntegrityError w tvs calls IntegrityError =
     (calls @ [LogWarning IntegrityError, Rollback] @ (if play_mode w then [Save tvs True] else []),
      if play_mode w then save_to_database w tvs True else None)"
  by (simp add: except_IntegrityError_def)

text \<open>The calls of the \<^verbatim>\<open>try\<close> statement concern the timed values it was given.\<close>

lemma try_save_calls:
  "x \<in> set (fst (try_save w tvs)) \<Longrightarrow>
     x = Save tvs False \<or> x = Flush \<or> x = LogWarning IntegrityError \<or> x = Rollback
     \<or> x = Save tvs True"
  by (auto simp: try_save_def except_IntegrityError_def Let_def split: option.splits if_splits)

text \<open>
  When the first save raises \<^verbatim>\<open>IntegrityError\<close>, in \<^verbatim>\<open>save_to_database\<close> or in the flush
  after it, the \<^verbatim>\<open>try\<close> statement logs, rolls back and, in play mode only, saves again
  with \<open>overwrite=True\<close>.
\<close>

lemma try_save_IntegrityError:
  assumes "save_to_database w tvs False = Some IntegrityError
           \<or> (save_to_database w tvs False = None \<and> session_flush w = Some IntegrityError)"
  shows "\<exists>attempt. try_save w tvs =
           (attempt @ [LogWarning IntegrityError, Rollback]
              @ (if play_mode w then [Save tvs True] else []),
            if play_mode w then save_to_database w tvs True else None)
         \<and> (attempt = [Save tvs False] \<or> attempt = [Save tvs False, Flush])"
  using assms by (auto simp: try_save_def except_IntegrityError_raised)

text \<open>
  The ways through \<^verbatim>\<open>make_forecasts\<close>, in the order of the source: the data source lookup
  fails; \<^verbatim>\<open>get_asset\<close> fails; there is no current job to print the id of; the horizon
  is not supported; a collaborator or \<^verbatim>\<open>make_timed_value\<close> raises after the check; the
  \<^verbatim>\<open>try\<close> statement is reached.
\<close>

lemma make_forecasts_shape:
  obtains
    (source_error) e calls0 where
      "get_data_source w = (Inl e, calls0)"
      "make_forecasts w a t h s e' c = (calls0, Some e)"
  | (asset_error) ds calls0 e where
      "get_data_source w = (Inr ds, calls0)" "get_asset w a t = Inl e"
      "make_forecasts w a t h s e' c = (calls0, Some e)"
  | (no_job) ds calls0 asset where
      "get_data_source w = (Inr ds, calls0)" "get_asset w a t = Inr asset"
      "current_job w = None"
      "make_forecasts w a t h s e' c = (calls0, Some AttributeError)"
  | (invalid_horizon) ds calls0 asset job where
      "get_data_source w = (Inr ds, calls0)" "get_asset w a t = Inr asset"
      "current_job w = Some job" "h \<notin> set (supported_horizons w)"
      "make_forecasts w a t h s e' c =
         (calls0 @ [Print job], Some (InvalidHorizonException job h))"
  | (later_error) ds calls0 asset job calls e where
      "get_data_source w = (Inr ds, calls0)" "get_asset w a t = Inr asset"
      "current_job w = Some job" "h \<in> set (supported_horizons w)"
      "calls = [BuildModel] \<or> calls = [BuildModel, RollingForecasts]"
      "make_forecasts w a t h s e' c = (calls0 @ [Print job] @ calls, Some e)"
  | (saving) ds calls0 asset job tvs where
      "get_data_source w = (Inr ds, calls0)" "get_asset w a t = Inr asset"
      "current_job w = Some job" "h \<in> set (supported_horizons w)"
      "make_forecasts w a t h s e' c =
         (calls0 @ [Print job, BuildModel, RollingForecasts] @ fst (try_save w tvs),
          snd (try_save w tvs))"
proof -
  obtain r calls0 where g: "get_data_source w = (r, calls0)"
    by (cases "get_data_source w")
  show thesis
  proof (cases r)
    case (Inl e)
    then show thesis
      using g source_error by (simp add: make_forecasts_def)
  next
    case ds: (Inr ds)
    show thesis
    proof (cases "get_asset w a t")
      case (Inl e)
      then show thesis
        using g ds asset_error by (simp add: make_forecasts_def)
    next
      case asset: (Inr asset)
      show thesis
      proof (cases "current_job w")
        case None
        then show thesis
          using g ds asset no_job by (simp add: make_forecasts_def)
      next
        case job: (Some job)
        show thesis
        proof (cases "h \<in> set (supported_horizons w)")
          case False
          then show thesis
            using g ds asset job invalid_horizon by (simp add: make_forecasts_def)
        next
          case True
          define eph where
            "eph = (if a_market_type asset \<noteq> None then None else Some (hours 0))"
          show thesis
          proof (cases "latest_generic_model w asset (as_bvp_time s) (as_bvp_time e') h eph c")
            case (Inl e)
            then have "make_forecasts w a t h s e' c = (calls0 @ [Print job] @ [BuildModel], Some e)"
              using g ds asset job True by (simp add: make_forecasts_def eph_def Let_def)
            then show thesis
              using later_error [OF _ _ job True, of ds calls0 asset "[BuildModel]" e] g ds asset
              by simp
          next
            case specs: (Inr specs)
            show thesis
            proof (cases "make_rolling_forecasts w (as_bvp_time s) (as_bvp_time e')
                            (specs\<lparr>ms_creation_time := Some (bvp_now w)\<rparr>)")
              case (Inl e)
              then have "make_forecasts w a t h s e' c =
                  (calls0 @ [Print job] @ [BuildModel, RollingForecasts], Some e)"
                using g ds asset job True specs by (simp add: make_forecasts_def eph_def Let_def)
              then show thesis
                using later_error [OF _ _ job True, of ds calls0 asset
                    "[BuildModel, RollingForecasts]" e] g ds asset
                by simp
            next
              case forecasts: (Inr forecasts)
              show thesis
              proof (cases "make_timed_values t a h (ds_id ds) forecasts")
                case (Inl e)
                then have "make_forecasts w a t h s e' c =
                    (calls0 @ [Print job] @ [BuildModel, RollingForecasts], Some e)"
                  using g ds asset job True specs forecasts
                  by (simp add: make_forecasts_def eph_def Let_def)
                then show thesis
                  using later_error [OF _ _ job True, of ds calls0 asset
                      "[BuildModel, RollingForecasts]" e] g ds asset
                  by simp
              next
                case (Inr tvs)
                then have "make_forecasts w a t h s e' c =
                    (calls0 @ [Print job, BuildModel, RollingForecasts] @ fst (try_save w tvs),
                     snd (try_save w tvs))"
                  using g ds asset job True specs forecasts
                  by (simp add: make_forecasts_def eph_def Let_def split: prod.splits)
                then show thesis
                  using saving [OF _ _ job True, of ds calls0 asset tvs] g ds asset by simp
              qed
            qed
          qed
        qed
      qed
    qed
  qed
qed

text \<open>The exceptions of the lookups are not \<^verbatim>\<open>InvalidHorizonException\<close>.\<close>

lemma get_data_source_error:
  "get_data_source w = (Inl e, calls) \<Longrightarrow> e = MultipleResultsFound"
  by (auto simp: get_data_source_def one_or_none_def Let_def
      split: sum.splits option.splits list.splits)

lemma one_or_none_error: "one_or_none rows = Inl e \<Longrightarrow> e = MultipleResultsFound"
  by (auto simp: one_or_none_def split: list.splits)

lemma get_asset_error:
  "get_asset w a t = Inl e \<Longrightarrow> e = MultipleResultsFound \<or> (\<exists>m. e = PyException m)"
  unfolding get_asset_def
  by (auto split: if_splits sum.splits option.splits dest: one_or_none_error)

text \<open>
  Claim C1. If saving the forecast records \<open>tvs\<close> raises \<^verbatim>\<open>IntegrityError\<close> (the call
  \<^verbatim>\<open>save_to_database(tvs)\<close> was made, and it or the flush after it raised), then the calls
  of \<^verbatim>\<open>make_forecasts\<close> end with the warning, the rollback of the session and, exactly
  when the configuration value \<open>BVP_MODE\<close> is \<open>play\<close>, one \<^verbatim>\<open>save_to_database\<close> with
  \<open>overwrite=True\<close>; before these there is no rollback and no save with
  \<open>overwrite=True\<close>. In play mode \<^verbatim>\<open>make_forecasts\<close> ends as that second save does; in
  any other mode it returns after the rollback, without a retry.
\<close>

theorem make_forecasts_retry:
  assumes "Save tvs False \<in> set (fst (make_forecasts w a t h s e c))"
    and "save_to_database w tvs False = Some IntegrityError
         \<or> (save_to_database w tvs False = None \<and> session_flush w = Some IntegrityError)"
  shows "(\<exists>pre. fst (make_forecasts w a t h s e c) =
            pre @ [LogWarning IntegrityError, Rollback]
              @ (if config_get w ''BVP_MODE'' '''' = ''play'' then [Save tvs True] else [])
          \<and> Rollback \<notin> set pre \<and> (\<forall>x. Save x True \<notin> set pre))
       \<and> snd (make_forecasts w a t h s e c) =
           (if config_get w ''BVP_MODE'' '''' = ''play'' then save_to_database w tvs True
            else None)"
proof -
  let ?retry = "(\<exists>pre. fst (make_forecasts w a t h s e c) =
            pre @ [LogWarning IntegrityError, Rollback]
              @ (if play_mode w then [Save tvs True] else [])
          \<and> Rollback \<notin> set pre \<and> (\<forall>x. Save x True \<notin> set pre))
       \<and> snd (make_forecasts w a t h s e c) =
           (if play_mode w then save_to_database w tvs True else None)"
  have ?retry
  proof (cases rule: make_forecasts_shape [of w a t h s e c])
    case (source_error e calls0)
    then show ?retry
      using assms(1) get_data_source_calls [of w "Inl e" calls0] by auto
  next
    case (asset_error ds calls0 e)
    then show ?retry
      using assms(1) get_data_source_calls [of w "Inr ds" calls0] by auto
  next
    case (no_job ds calls0 asset)
    then show ?retry
      using assms(1) get_data_source_calls [of w "Inr ds" calls0] by auto
  next
    case (invalid_horizon ds calls0 asset job)
    then show ?retry
      using assms(1) get_data_source_calls [of w "Inr ds" calls0] by auto
  next
    case (later_error ds calls0 asset job calls e)
    then show ?retry
      using assms(1) get_data_source_calls [of w "Inr ds" calls0] by auto
  next
    case (saving ds calls0 asset job tvs')
    have c0: "calls0 = [] \<or> (\<exists>x. calls0 = [SessionAdd x])"
      using get_data_source_calls [OF saving(1)] .
    have "Save tvs False \<in> set (fst (try_save w tvs'))"
      using assms(1) saving(5) c0 by auto
    then have eq: "tvs' = tvs"
      using try_save_calls [of "Save tvs False" w tvs'] by auto
    obtain attempt where at: "try_save w tvs =
             (attempt @ [LogWarning IntegrityError, Rollback]
                @ (if play_mode w then [Save tvs True] else []),
              if play_mode w then save_to_database w tvs True else None)"
        and att: "attempt = [Save tvs False] \<or> attempt = [Save tvs False, Flush]"
      using try_save_IntegrityError [OF assms(2)] by blast
    define pre where "pre = calls0 @ [Print job, BuildModel, RollingForecasts] @ attempt"
    have 1: "fst (make_forecasts w a t h s e c) =
              pre @ [LogWarning IntegrityError, Rollback]
                @ (if play_mode w then [Save tvs True] else [])"
      using saving(5) eq at by (simp add: pre_def)
    have 2: "Rollback \<notin> set pre \<and> (\<forall>x. Save x True \<notin> set pre)"
      using c0 att by (auto simp: pre_def)
    have 3: "snd (make_forecasts w a t h s e c) =
             (if play_mode w then save_to_database w tvs True else None)"
      using saving(5) eq at by simp
    show ?retry
      using 1 2 3 by blast
  qed
  then show ?thesis
    unfolding play_mode_def .
qed

text \<open>
  The theorem in the example world, in play mode: the job is printed, the model built,
  the forecasts made, the save fails, and the session is rolled back and the save
  repeated with \<open>overwrite=True\<close>.
\<close>

theorem make_forecasts_retry_witness:
  "Save [\<lparr>tv_class = Power, tv_datetime = 0, tv_horizon = hours 6, tv_value = 5,
           tv_asset_id = 7, tv_data_source_id = 1\<rparr>] False
     \<in> set (fst (make_forecasts example_world 7 ''Power'' (hours 6) 0 100 None))
   \<and> save_to_database example_world
        [\<lparr>tv_class = Power, tv_datetime = 0, tv_horizon = hours 6, tv_value = 5,
          tv_asset_id = 7, tv_data_source_id = 1\<rparr>] False = Some IntegrityError
   \<and> make_forecasts example_world 7 ''Power'' (hours 6) 0 100 None =
       ([Print ''job-1'', BuildModel, RollingForecasts,
         Save [\<lparr>tv_class = Power, tv_datetime = 0, tv_horizon = hours 6, tv_value = 5,
                tv_asset_id = 7, tv_data_source_id = 1\<rparr>] False,
         LogWarning IntegrityError, Rollback,
         Save [\<lparr>tv_class = Power, tv_datetime = 0, tv_horizon = hours 6, tv_value = 5,
                tv_asset_id = 7, tv_data_source_id = 1\<rparr>] True],
        None)"
  using make_forecasts_retry
    [of "[\<lparr>tv_class = Power, tv_datetime = 0, tv_horizon = hours 6, tv_value = 5,
            tv_asset_id = 7, tv_data_source_id = 1\<rparr>]"
        example_world 7 "''Power''" "hours 6" 0 100 None]
  by (simp add: make_forecasts_def get_data_source_def get_asset_def one_or_none_def
      make_timed_value_def try_save_def except_IntegrityError_def play_mode_def
      config_get_def example_world_def as_bvp_time_def Let_def)

text \<open>
  Claim C2, as stated: \<^verbatim>\<open>make_forecasts\<close> raises \<^verbatim>\<open>InvalidHorizonException\<close> if and only
  if the horizon is not among \<^verbatim>\<open>supported_horizons()\<close>. The job id, the data source and
  the asset are obtained before the check (lines 56 to 63). Below the horizon 5 is not
  supported, and the asset table is empty: \<^verbatim>\<open>get_asset\<close> raises its own exception and
  the check is never reached.
\<close>

theorem make_forecasts_invalid_horizon_counterexample:
  "5 \<notin> set (supported_horizons (example_world\<lparr>asset_tbl := []\<rparr>))
   \<and> make_forecasts (example_world\<lparr>asset_tbl := []\<rparr>) 7 ''Power'' 5 0 100 None =
       ([], Some (PyException ''Cannot find asset for value type''))"
  by (simp add: make_forecasts_def get_data_source_def get_asset_def one_or_none_def
      example_world_def hours_def)

text \<open>
  Claim C2, amended. \<^verbatim>\<open>make_forecasts\<close> raises \<^verbatim>\<open>InvalidHorizonException\<close> before any
  model is built if and only if the steps before its check succeed (the data source
  lookup, \<^verbatim>\<open>get_asset\<close>, and reading the id of the current job) and the horizon is not
  among \<^verbatim>\<open>supported_horizons()\<close>. Whenever the horizon is not supported, no model is
  built and no forecast is saved.
\<close>

theorem make_forecasts_invalid_horizon:
  "(((\<exists>job. snd (make_forecasts w a t h s e c) = Some (InvalidHorizonException job h))
      \<and> BuildModel \<notin> set (fst (make_forecasts w a t h s e c)))
     \<longleftrightarrow> ((\<exists>ds calls0. get_data_source w = (Inr ds, calls0))
          \<and> (\<exists>asset. get_asset w a t = Inr asset)
          \<and> current_job w \<noteq> None
          \<and> h \<notin> set (supported_horizons w)))
   \<and> (h \<notin> set (supported_horizons w) \<longrightarrow>
        BuildModel \<notin> set (fst (make_forecasts w a t h s e c))
        \<and> (\<forall>tvs overwrite. Save tvs overwrite \<notin> set (fst (make_forecasts w a t h s e c))))"
proof (cases rule: make_forecasts_shape [of w a t h s e c])
  case (source_error x calls0)
  have "x = MultipleResultsFound"
    using get_data_source_error [OF source_error(1)] .
  then show ?thesis
    using source_error get_data_source_calls [OF source_error(1)] by auto
next
  case (asset_error ds calls0 x)
  have "x = MultipleResultsFound \<or> (\<exists>m. x = PyException m)"
    using get_asset_error [OF asset_error(2)] .
  then show ?thesis
    using asset_error get_data_source_calls [OF asset_error(1)] by auto
next
  case (no_job ds calls0 asset)
  then show ?thesis
    using get_data_source_calls [OF no_job(1)] by auto
next
  case (invalid_horizon ds calls0 asset job)
  then show ?thesis
    using get_data_source_calls [OF invalid_horizon(1)] by auto
next
  case (later_error ds calls0 asset job calls x)
  then show ?thesis
    by auto
next
  case (saving ds calls0 asset job tvs)
  then show ?thesis
    by auto
qed

text \<open>The theorem in the example world, at the unsupported horizon 5.\<close>

theorem make_forecasts_invalid_horizon_witness:
  "5 \<notin> set (supported_horizons example_world)
   \<and> make_forecasts example_world 7 ''Power'' 5 0 100 None =
       ([Print ''job-1''], Some (InvalidHorizonException ''job-1'' 5))
   \<and> BuildModel \<notin> set (fst (make_forecasts example_world 7 ''Power'' 5 0 100 None))"
  using make_forecasts_invalid_horizon [of example_world 7 "''Power''" 5 0 100 None]
  by (simp add: make_forecasts_def get_data_source_def get_asset_def one_or_none_def
      example_world_def hours_def)

end
